theory Spec2Isabelle
  imports Complex_Main "HOL-Library.Word"
begin

section \<open>Configuration (config.py)\<close>

text \<open>
  The dataclasses of \<^verbatim>\<open>config.py\<close> with their defaults. Python integers are unbounded
  (\<open>int\<close>); Python floats are read as exact reals. \<^verbatim>\<open>LivenessConfig\<close> has no
  \<^verbatim>\<open>__post_init__\<close>: any integers are accepted.
\<close>

record LivenessConfig =
  motion_history_size :: int
  liveness_threshold :: int
  min_face_presence :: int
  motion_pixel_threshold :: int

record RecognitionConfig =
  recognition_threshold :: real
  confidence_threshold :: real
  duplicate_detection_window :: int

record SystemConfig =
  liveness :: LivenessConfig
  recognition :: RecognitionConfig

definition LivenessConfig_default :: LivenessConfig where
  "LivenessConfig_default =
     \<lparr>motion_history_size = 10, liveness_threshold = 15,
      min_face_presence = 5, motion_pixel_threshold = 10\<rparr>"

definition RecognitionConfig_default :: RecognitionConfig where
  "RecognitionConfig_default =
     \<lparr>recognition_threshold = 6 / 10, confidence_threshold = 55 / 100,
      duplicate_detection_window = 5\<rparr>"

definition DEFAULT_CONFIG :: SystemConfig where
  "DEFAULT_CONFIG =
     \<lparr>liveness = LivenessConfig_default, recognition = RecognitionConfig_default\<rparr>"

section \<open>Exceptions\<close>

datatype py_error = cv2_error | OSError | IndexError

section \<open>Face patches and the cv2 / numpy operations used on them\<close>

text \<open>
  A face region is the slice \<^verbatim>\<open>frame[top:bottom, left:right]\<close>, given here by the
  intensities of its pixels: a list of rows of \<^verbatim>\<open>uint8\<close> values. \<^verbatim>\<open>cv2.cvtColor\<close>
  keeps the shape of its argument and raises \<^verbatim>\<open>cv2.error\<close> on an empty image;
  \<^verbatim>\<open>cv2.resize\<close> is a parameter \<open>rs\<close> of the model (source image, target
  shape as rows and columns), taken to return an image of the shape it is asked for.
  The rows of a patch are taken to have one length, so that its size is the sum of
  their lengths and its shape is given by its first row.
\<close>

type_synonym pixel = "8 word"
type_synonym patch = "pixel list list"
type_synonym resize = "patch \<Rightarrow> nat \<times> nat \<Rightarrow> patch"

definition np_size :: "patch \<Rightarrow> nat" where
  "np_size p = sum_list (map length p)"

definition shape :: "patch \<Rightarrow> nat \<times> nat" where
  "shape p = (length p, (case p of [] \<Rightarrow> 0 | r # _ \<Rightarrow> length r))"

definition cvtColor :: "patch \<Rightarrow> py_error + patch" where
  "cvtColor p = (if np_size p = 0 then Inl cv2_error else Inr p)"

definition absdiff :: "pixel \<Rightarrow> pixel \<Rightarrow> pixel" where
  "absdiff a b = (if a \<le> b then b - a else a - b)"

definition cv_absdiff :: "patch \<Rightarrow> patch \<Rightarrow> patch" where
  "cv_absdiff p q = map2 (map2 absdiff) p q"

text \<open>\<^verbatim>\<open>np.sum(diff > threshold)\<close>: the number of entries above the threshold.\<close>

definition np_sum_gt :: "patch \<Rightarrow> int \<Rightarrow> nat" where
  "np_sum_gt d thr = sum_list (map (\<lambda>row. length (filter (\<lambda>x. thr < uint x) row)) d)"

section \<open>LivenessDetector (recognize\_v2.py)\<close>

record LivenessDetector =
  motion_history :: "patch list"
  face_presence_count :: int
  is_alive :: bool

definition LivenessDetector_init :: LivenessDetector where
  "LivenessDetector_init = \<lparr>motion_history = [], face_presence_count = 0, is_alive = False\<rparr>"

text \<open>
  \<^verbatim>\<open>_calculate_total_motion\<close>: the loop \<^verbatim>\<open>for i in range(1, len(self.motion_history))\<close>
  with its accumulator.
\<close>

function total_motion_loop :: "resize \<Rightarrow> LivenessConfig \<Rightarrow> patch list \<Rightarrow> nat \<Rightarrow> real \<Rightarrow> real" where
  "total_motion_loop rs cfg h i total_motion =
     (if i < length h then
        (let prev_frame = h ! (i - 1);
             curr_frame = h ! i;
             curr_frame = (if shape prev_frame \<noteq> shape curr_frame
                           then rs curr_frame (shape prev_frame) else curr_frame);
             frame_diff = cv_absdiff prev_frame curr_frame
         in total_motion_loop rs cfg h (i + 1)
              (total_motion + real (np_sum_gt frame_diff (motion_pixel_threshold cfg))))
      else total_motion)"
  by pat_completeness auto
termination
  by (relation "measure (\<lambda>(rs, cfg, h, i, t). length h - i)") auto

declare total_motion_loop.simps [simp del]

definition calculate_total_motion :: "resize \<Rightarrow> LivenessConfig \<Rightarrow> LivenessDetector \<Rightarrow> real" where
  "calculate_total_motion rs cfg self = total_motion_loop rs cfg (motion_history self) 1 0"

definition detect_motion ::
  "resize \<Rightarrow> LivenessConfig \<Rightarrow> LivenessDetector \<Rightarrow> patch option
     \<Rightarrow> (py_error + bool) \<times> LivenessDetector" where
  "detect_motion rs cfg self face_location =
     (case face_location of
        None \<Rightarrow> (Inr False, self\<lparr>face_presence_count := 0, motion_history := []\<rparr>)
      | Some face_region \<Rightarrow>
          (let self1 = self\<lparr>face_presence_count := face_presence_count self + 1\<rparr> in
           if np_size face_region = 0 then (Inr False, self1)
           else if length (motion_history self1) = 0 then
             (case cvtColor face_region of
                Inl e \<Rightarrow> (Inl e, self1)
              | Inr gray \<Rightarrow>
                  (Inr False, self1\<lparr>motion_history := motion_history self1 @ [gray]\<rparr>))
           else
             (case cvtColor face_region of
                Inl e \<Rightarrow> (Inl e, self1)
              | Inr gray \<Rightarrow>
                  (let prev_gray = last (motion_history self1);
                       prev_gray = (if shape prev_gray \<noteq> shape gray
                                    then rs prev_gray (shape gray) else prev_gray);
                       diff = cv_absdiff prev_gray gray;
                       motion_pixels = np_sum_gt diff (motion_pixel_threshold cfg);
                       self2 = self1\<lparr>motion_history := motion_history self1 @ [gray]\<rparr>;
                       self3 = (if int (length (motion_history self2)) > motion_history_size cfg
                                then self2\<lparr>motion_history := tl (motion_history self2)\<rparr>
                                else self2);
                       self4 = (if length (motion_history self3) \<ge> 3 then
                                  (let total_motion = calculate_total_motion rs cfg self3;
                                       avg_motion = total_motion
                                          / real_of_int (int (length (motion_history self3)) - 1)
                                   in self3\<lparr>is_alive :=
                                        avg_motion > real_of_int (liveness_threshold cfg)\<rparr>)
                                else self3)
                   in (Inr (is_alive self4), self4)))))"

text \<open>\<^verbatim>\<open>reset\<close>.\<close>

definition reset :: "LivenessDetector \<Rightarrow> LivenessDetector" where
  "reset self = self\<lparr>motion_history := [], face_presence_count := 0, is_alive := False\<rparr>"

text \<open>A sequence of calls on one detector: the returned values, and the final state.\<close>

fun detect_motion_seq ::
  "resize \<Rightarrow> LivenessConfig \<Rightarrow> LivenessDetector \<Rightarrow> patch option list
     \<Rightarrow> (py_error + bool) list \<times> LivenessDetector" where
  "detect_motion_seq rs cfg self [] = ([], self)"
| "detect_motion_seq rs cfg self (x # xs) =
     (let (r, self') = detect_motion rs cfg self x;
          (rest, self'') = detect_motion_seq rs cfg self' xs
      in (r # rest, self''))"

section \<open>LivenessDetector (recognize.py)\<close>


definition MOTION_HISTORY_SIZE :: int where
  "MOTION_HISTORY_SIZE = 10"




section \<open>Time, the attendance file and pandas\<close>

text \<open>
  A \<^verbatim>\<open>datetime\<close> is given by what the code reads from it: its rendering by
  \<^verbatim>\<open>strftime("%Y-%m-%d")\<close>, its rendering by \<^verbatim>\<open>strftime("%H:%M:%S")\<close>, and its
  position on the time line in microseconds.
\<close>

record datetime =
  dt_date :: string
  dt_time :: string
  dt_micros :: int

text \<open>\<^verbatim>\<open>(a - b).total_seconds()\<close>.\<close>

definition total_seconds :: "datetime \<Rightarrow> datetime \<Rightarrow> real" where
  "total_seconds a b = real_of_int (dt_micros a - dt_micros b) / 1000000"

text \<open>
  One call of \<^verbatim>\<open>mark_attendance\<close> reads the clock up to three times: at its start
  (\<open>now1\<close>), when it measures the age of the debounce entry (\<open>now2\<close>), and when it
  stores the new entry (\<open>now3\<close>).
\<close>

record clock =
  now1 :: datetime
  now2 :: datetime
  now3 :: datetime

text \<open>
  The attendance file is a table of six text columns. \<^verbatim>\<open>pd.read_csv(..., dtype=str)\<close>
  yields, for every field, either a string or the missing value \<^verbatim>\<open>NaN\<close>: a field whose
  text is one of pandas' default missing-value markers is read as \<^verbatim>\<open>NaN\<close>.
  \<^verbatim>\<open>to_csv\<close> writes \<^verbatim>\<open>NaN\<close> as the empty field.
\<close>

datatype cell = NaN | Str string

record 'c Row =
  Name :: 'c
  Date :: 'c
  Punch_In :: 'c
  Punch_Out :: 'c
  Confidence :: 'c
  Liveness_Check :: 'c

definition map_Row :: "('a \<Rightarrow> 'b) \<Rightarrow> 'a Row \<Rightarrow> 'b Row" where
  "map_Row f r =
     \<lparr>Name = f (Name r), Date = f (Date r), Punch_In = f (Punch_In r),
      Punch_Out = f (Punch_Out r), Confidence = f (Confidence r),
      Liveness_Check = f (Liveness_Check r)\<rparr>"

definition na_values :: "string list" where
  "na_values =
     ['''', ''#N/A'', ''#N/A N/A'', ''#NA'', ''-1.#IND'', ''-1.#QNAN'', ''-NaN'', ''-nan'',
      ''1.#IND'', ''1.#QNAN'', ''<NA>'', ''N/A'', ''NA'', ''NULL'', ''NaN'', ''None'',
      ''n/a'', ''nan'', ''null'']"

definition parse_cell :: "string \<Rightarrow> cell" where
  "parse_cell s = (if s \<in> set na_values then NaN else Str s)"

definition render_cell :: "cell \<Rightarrow> string" where
  "render_cell c = (case c of NaN \<Rightarrow> '''' | Str s \<Rightarrow> s)"

text \<open>
  The file on disk: its rows when it can be read (\<open>None\<close> when reading it raises), and
  whether writing it succeeds. A write that raises is taken to leave the rows as they
  were.
\<close>

record FileStore =
  contents :: "string Row list option"
  writable :: bool

definition pd_read_csv :: "FileStore \<Rightarrow> py_error + cell Row list" where
  "pd_read_csv fs =
     (case contents fs of None \<Rightarrow> Inl OSError
      | Some rows \<Rightarrow> Inr (map (map_Row parse_cell) rows))"

definition pd_to_csv :: "FileStore \<Rightarrow> cell Row list \<Rightarrow> py_error + FileStore" where
  "pd_to_csv fs df =
     (if writable fs then Inr (fs\<lparr>contents := Some (map (map_Row render_cell) df)\<rparr>)
      else Inl OSError)"

text \<open>\<^verbatim>\<open>str(x)\<close> of a field and \<^verbatim>\<open>str.strip()\<close> (on ASCII text).\<close>

definition py_str :: "cell \<Rightarrow> string" where
  "py_str c = (case c of NaN \<Rightarrow> ''nan'' | Str s \<Rightarrow> s)"

definition py_isspace :: "char \<Rightarrow> bool" where
  "py_isspace c = (let n = of_char c :: nat in (9 \<le> n \<and> n \<le> 13) \<or> (28 \<le> n \<and> n \<le> 32))"

definition py_strip :: "string \<Rightarrow> string" where
  "py_strip s = rev (dropWhile py_isspace (rev (dropWhile py_isspace s)))"

section \<open>AttendanceSystem (recognize\_v2.py)\<close>


record 'e AttendanceSystem =
  known_encodings :: "'e list"
  known_names :: "string list"
  liveness_detector :: LivenessDetector
  last_marked :: "string \<rightharpoonup> datetime"

datatype status = PUNCH_IN | PUNCH_OUT | DUPLICATE | ALREADY_MARKED | REJECTED_SPOOF | ERROR






text \<open>
  \<^verbatim>\<open>load_known_faces\<close>: the encodings directory is given as the list of its
  \<^verbatim>\<open>*.npy\<close> files, each with its stem and the outcome of \<^verbatim>\<open>np.load\<close>.
\<close>

fun load_known_faces ::
  "'e AttendanceSystem \<Rightarrow> (string \<times> (py_error + 'e)) list \<Rightarrow> 'e AttendanceSystem" where
  "load_known_faces self [] = self"
| "load_known_faces self ((stem, loaded) # files) =
     (case loaded of
        Inl e \<Rightarrow> load_known_faces self files
      | Inr encoding \<Rightarrow>
          load_known_faces
            (self\<lparr>known_encodings := known_encodings self @ [encoding],
                  known_names := known_names self @ [stem]\<rparr>) files)"

text \<open>
  \<^verbatim>\<open>mark_attendance\<close>. \<open>matches\<close> is the index of the selection
  \<^verbatim>\<open>df[(df["Name"] == name) & (df["Date"] == date)]\<close>.
\<close>

definition record_index :: "cell Row list \<Rightarrow> string \<Rightarrow> string \<Rightarrow> nat list" where
  "record_index df name date =
     filter (\<lambda>i. Name (df ! i) = Str name \<and> Date (df ! i) = Str date) [0..<length df]"

definition mark_attendance ::
  "SystemConfig \<Rightarrow> 'e AttendanceSystem \<Rightarrow> FileStore \<Rightarrow> clock \<Rightarrow> string \<Rightarrow> bool
     \<Rightarrow> status \<times> 'e AttendanceSystem \<times> FileStore" where
  "mark_attendance cfg self fs clk name alive =
     (if \<not> alive then (REJECTED_SPOOF, self, fs)
      else
        (let now = now1 clk; date = dt_date now; time_str = dt_time now in
         case pd_read_csv fs of
           Inl e \<Rightarrow> (ERROR, self, fs)
         | Inr df \<Rightarrow>
            (let matches = record_index df name date in
             if matches = [] then
               (let key = name @ ''_'' @ date in
                if (case last_marked self key of
                      None \<Rightarrow> False
                    | Some t \<Rightarrow> total_seconds (now2 clk) t
                        < real_of_int (duplicate_detection_window (recognition cfg)))
                then (DUPLICATE, self, fs)
                else
                  (let new_record =
                         \<lparr>Name = Str name, Date = Str date, Punch_In = Str time_str,
                          Punch_Out = Str '''', Confidence = Str ''HIGH'',
                          Liveness_Check = Str ''VERIFIED''\<rparr>;
                       df' = df @ [new_record];
                       self' = self\<lparr>last_marked := (last_marked self)(key \<mapsto> now3 clk)\<rparr>
                   in case pd_to_csv fs df' of
                        Inl e \<Rightarrow> (ERROR, self', fs)
                      | Inr fs' \<Rightarrow> (PUNCH_IN, self', fs')))
             else
               (let punch_out_val = py_strip (py_str (Punch_Out (df ! hd matches))) in
                if punch_out_val = '''' \<or> punch_out_val = ''nan'' then
                  (let df' = df[hd matches := (df ! hd matches)
                                  \<lparr>Punch_Out := Str time_str,
                                   Liveness_Check := Str ''VERIFIED''\<rparr>];
                       key = name @ ''_'' @ date;
                       self' = self\<lparr>last_marked := (last_marked self)(key := None)\<rparr>
                   in case pd_to_csv fs df' of
                        Inl e \<Rightarrow> (ERROR, self', fs)
                      | Inr fs' \<Rightarrow> (PUNCH_OUT, self', fs'))
                else (ALREADY_MARKED, self, fs)))))"


section \<open>AttendanceSystem.mark\_attendance (recognize.py)\<close>

text \<open>
  The first version has no \<^verbatim>\<open>try\<close>: an exception of the read or of the write leaves
  the function, with the changes made so far. Its debounce window is the literal 5.
\<close>

definition mark_attendance_v1 ::
  "'e AttendanceSystem \<Rightarrow> FileStore \<Rightarrow> clock \<Rightarrow> string \<Rightarrow> bool
     \<Rightarrow> (py_error + status) \<times> 'e AttendanceSystem \<times> FileStore" where
  "mark_attendance_v1 self fs clk name alive =
     (if \<not> alive then (Inr REJECTED_SPOOF, self, fs)
      else
        (let now = now1 clk; date = dt_date now; time_str = dt_time now in
         case pd_read_csv fs of
           Inl e \<Rightarrow> (Inl e, self, fs)
         | Inr df \<Rightarrow>
            (let matches = record_index df name date in
             if matches = [] then
               (let key = name @ ''_'' @ date in
                if (case last_marked self key of
                      None \<Rightarrow> False
                    | Some t \<Rightarrow> total_seconds (now2 clk) t < 5)
                then (Inr DUPLICATE, self, fs)
                else
                  (let df' = df @ [\<lparr>Name = Str name, Date = Str date, Punch_In = Str time_str,
                                    Punch_Out = Str '''', Confidence = Str ''HIGH'',
                                    Liveness_Check = Str ''VERIFIED''\<rparr>];
                       self' = self\<lparr>last_marked := (last_marked self)(key \<mapsto> now3 clk)\<rparr>
                   in case pd_to_csv fs df' of
                        Inl e \<Rightarrow> (Inl e, self', fs)
                      | Inr fs' \<Rightarrow> (Inr PUNCH_IN, self', fs')))
             else
               (let punch_out_val = py_strip (py_str (Punch_Out (df ! hd matches))) in
                if punch_out_val = '''' \<or> punch_out_val = ''nan'' then
                  (let df' = df[hd matches := (df ! hd matches)
                                  \<lparr>Punch_Out := Str time_str,
                                   Liveness_Check := Str ''VERIFIED''\<rparr>];
                       key = name @ ''_'' @ date;
                       self' = self\<lparr>last_marked := (last_marked self)(key := None)\<rparr>
                   in case pd_to_csv fs df' of
                        Inl e \<Rightarrow> (Inl e, self', fs)
                      | Inr fs' \<Rightarrow> (Inr PUNCH_OUT, self', fs'))
                else (Inr ALREADY_MARKED, self, fs)))))"

section \<open>The specification's formulas\<close>

text \<open>
  The number of pixels whose absolute difference exceeds the threshold, for two patches
  (after the second was resized to the shape of the first when the shapes differ), and
  the average motion of a window: the sum over its adjacent pairs, divided by its length
  less one.
\<close>

definition count_exceeding :: "int \<Rightarrow> patch \<Rightarrow> patch \<Rightarrow> nat" where
  "count_exceeding thr p q =
     (\<Sum>i<min (length p) (length q). \<Sum>j<min (length (p ! i)) (length (q ! i)).
        if thr < \<bar>uint (p ! i ! j) - uint (q ! i ! j)\<bar> then 1 else 0)"

definition pair_motion :: "resize \<Rightarrow> int \<Rightarrow> patch \<Rightarrow> patch \<Rightarrow> nat" where
  "pair_motion rs thr prev_frame curr_frame =
     count_exceeding thr prev_frame
       (if shape prev_frame \<noteq> shape curr_frame then rs curr_frame (shape prev_frame)
        else curr_frame)"

definition spec_average_motion :: "resize \<Rightarrow> LivenessConfig \<Rightarrow> patch list \<Rightarrow> real" where
  "spec_average_motion rs cfg w =
     real (\<Sum>i = 1..<length w.
             pair_motion rs (motion_pixel_threshold cfg) (w ! (i - 1)) (w ! i))
       / real (length w - 1)"

text \<open>The window after a patch was appended: the oldest patch leaves on overflow.\<close>

definition window_after :: "int \<Rightarrow> patch list \<Rightarrow> patch \<Rightarrow> patch list" where
  "window_after history_size h p =
     (if int (length h) + 1 > history_size then tl (h @ [p]) else h @ [p])"

text \<open>
  The first index of the minimum of a list of distances: the enrolled identity the
  specification selects, ties going to the earliest enrollment.
\<close>

definition is_first_min :: "real list \<Rightarrow> nat \<Rightarrow> bool" where
  "is_first_min ds i \<longleftrightarrow> i < length ds \<and> ds ! i = Min (set ds) \<and> (\<forall>k<i. Min (set ds) < ds ! k)"

text \<open>
  What \<^verbatim>\<open>mark_attendance\<close> takes for a row that has no punch-out yet: the text of the
  field, stripped, is empty or is \<^verbatim>\<open>nan\<close>.
\<close>

definition punch_out_empty :: "cell \<Rightarrow> bool" where
  "punch_out_empty c \<longleftrightarrow> py_strip (py_str c) = '''' \<or> py_strip (py_str c) = ''nan''"

section \<open>Example data\<close>

definition patch_dark :: patch where
  "patch_dark = [[0, 0, 0, 0], [0, 0, 0, 0], [0, 0, 0, 0], [0, 0, 0, 0]]"

definition patch_bright :: patch where
  "patch_bright =
     [[200, 200, 200, 200], [200, 200, 200, 200], [200, 200, 200, 200], [200, 200, 200, 200]]"

definition resize_id :: resize where
  "resize_id p s = p"

text \<open>The detector after a dark, a bright and a dark patch: it holds the verdict alive.\<close>

definition detector_alive :: LivenessDetector where
  "detector_alive =
     \<lparr>motion_history = [patch_dark, patch_bright, patch_dark],
      face_presence_count = 3, is_alive = True\<rparr>"

text \<open>The detector after two dark patches.\<close>

definition detector_still :: LivenessDetector where
  "detector_still =
     \<lparr>motion_history = [patch_dark, patch_dark], face_presence_count = 2, is_alive = False\<rparr>"

text \<open>
  Three enrolled identities with one-dimensional embeddings (the first and the third are
  equal), the distance of two such embeddings, and a clock reading.
\<close>

definition system_enrolled :: "real AttendanceSystem" where
  "system_enrolled =
     \<lparr>known_encodings = [2 / 10, 9 / 10, 2 / 10],
      known_names = [''alice'', ''bob'', ''carol''],
      liveness_detector = LivenessDetector_init,
      last_marked = Map.empty\<rparr>"



text \<open>
  Clock readings of one day, a clock that shows one reading during a whole call, an
  empty attendance file, and the same file when it cannot be written.
\<close>

definition morning :: datetime where
  "morning = \<lparr>dt_date = ''2024-01-01'', dt_time = ''09:00:00'', dt_micros = 32400000000\<rparr>"

definition morning_1s :: datetime where
  "morning_1s = \<lparr>dt_date = ''2024-01-01'', dt_time = ''09:00:01'', dt_micros = 32401000000\<rparr>"

definition evening :: datetime where
  "evening = \<lparr>dt_date = ''2024-01-01'', dt_time = ''17:00:00'', dt_micros = 61200000000\<rparr>"

definition clock_at :: "datetime \<Rightarrow> clock" where
  "clock_at d = \<lparr>now1 = d, now2 = d, now3 = d\<rparr>"

definition file_empty :: FileStore where
  "file_empty = \<lparr>contents = Some [], writable = True\<rparr>"

definition file_readonly :: FileStore where
  "file_readonly = \<lparr>contents = Some [], writable = False\<rparr>"

definition row_in :: "string Row" where
  "row_in =
     \<lparr>Name = ''alice'', Date = ''2024-01-01'', Punch_In = ''09:00:00'', Punch_Out = '''',
      Confidence = ''HIGH'', Liveness_Check = ''VERIFIED''\<rparr>"

text \<open>
  The same day after the punch-in of alice at 09:00:00, and after her punch-out at
  17:00:00: the rows of the file, the file, and the system with its debounce entry.
\<close>

definition row_out :: "string Row" where
  "row_out =
     \<lparr>Name = ''alice'', Date = ''2024-01-01'', Punch_In = ''09:00:00'',
      Punch_Out = ''17:00:00'', Confidence = ''HIGH'', Liveness_Check = ''VERIFIED''\<rparr>"

definition file_in :: FileStore where
  "file_in = \<lparr>contents = Some [row_in], writable = True\<rparr>"

definition file_out :: FileStore where
  "file_out = \<lparr>contents = Some [row_out], writable = True\<rparr>"

definition system_in :: "real AttendanceSystem" where
  "system_in = system_enrolled\<lparr>last_marked := [''alice_2024-01-01'' \<mapsto> morning]\<rparr>"

section \<open>The motion loop computes the specification's sum\<close>

lemma uint_absdiff: "uint (absdiff a b) = \<bar>uint a - uint b\<bar>"
  by (auto simp: absdiff_def word_le_def uint_sub_if' not_le)

lemma sum_list_map2_nth:
  "sum_list (map2 F xs ys) = (\<Sum>i<min (length xs) (length ys). (F (xs ! i) (ys ! i) :: nat))"
proof (induction xs arbitrary: ys)
  case Nil
  then show ?case by simp
next
  case (Cons x xs)
  show ?case
  proof (cases ys)
    case Nil
    then show ?thesis by simp
  next
    case (Cons y ys')
    then show ?thesis
      using Cons.IH [of ys'] by (simp add: sum.lessThan_Suc_shift del: sum.lessThan_Suc)
  qed
qed

lemma length_filter_indicator:
  "length (filter P zs) = sum_list (map (\<lambda>z. if P z then 1 else 0) zs)"
  by (induction zs) auto

lemma row_count:
  "length (filter (\<lambda>x. thr < uint x) (map2 absdiff r1 r2))
     = (\<Sum>j<min (length r1) (length r2). if thr < \<bar>uint (r1 ! j) - uint (r2 ! j)\<bar> then 1 else 0)"
proof -
  have "length (filter (\<lambda>x. thr < uint x) (map2 absdiff r1 r2))
      = sum_list (map2 (\<lambda>a b. if thr < uint (absdiff a b) then 1 else 0) r1 r2)"
    by (simp add: length_filter_indicator comp_def case_prod_unfold)
  then show ?thesis
    by (simp add: sum_list_map2_nth uint_absdiff)
qed

lemma np_sum_gt_rows:
  "np_sum_gt (cv_absdiff p q) thr
     = sum_list (map2 (\<lambda>r1 r2. length (filter (\<lambda>x. thr < uint x) (map2 absdiff r1 r2))) p q)"
proof (induction p arbitrary: q)
  case Nil
  then show ?case by (simp add: np_sum_gt_def cv_absdiff_def)
next
  case (Cons r p)
  show ?case
  proof (cases q)
    case Nil
    then show ?thesis by (simp add: np_sum_gt_def cv_absdiff_def)
  next
    case (Cons s q')
    then show ?thesis
      using Cons.IH [of q'] by (simp add: np_sum_gt_def cv_absdiff_def)
  qed
qed

lemma np_sum_gt_absdiff: "np_sum_gt (cv_absdiff p q) thr = count_exceeding thr p q"
  unfolding np_sum_gt_rows sum_list_map2_nth row_count count_exceeding_def ..

lemma total_motion_loop_sum:
  "total_motion_loop rs cfg h i acc
     = acc + real (\<Sum>k = i..<length h. pair_motion rs (motion_pixel_threshold cfg) (h ! (k - 1)) (h ! k))"
proof (induction rs cfg h i acc rule: total_motion_loop.induct)
  case (1 rs cfg h i total_motion)
  define pm where "pm k = pair_motion rs (motion_pixel_threshold cfg) (h ! (k - 1)) (h ! k)" for k
  show ?case
  proof (cases "i < length h")
    case True
    have "total_motion_loop rs cfg h i total_motion
            = total_motion_loop rs cfg h (i + 1) (total_motion + real (pm i))"
      using True
      by (subst total_motion_loop.simps)
         (simp add: Let_def np_sum_gt_absdiff pair_motion_def pm_def)
    also have "\<dots> = total_motion + real (pm i) + real (\<Sum>k = i + 1..<length h. pm k)"
      using "1.IH" [OF True refl refl refl refl]
      by (simp only: np_sum_gt_absdiff pair_motion_def pm_def)
    also have "\<dots> = total_motion + real (\<Sum>k = i..<length h. pm k)"
      using True by (simp add: sum.atLeast_Suc_lessThan)
    finally show ?thesis by (simp only: pm_def)
  next
    case False
    then show ?thesis
      by (subst total_motion_loop.simps) simp
  qed
qed


lemma real_length_pred: "3 \<le> length h \<Longrightarrow> real (length h) - 1 = real (length h - 1)"
  by (simp add: of_nat_diff)

lemma average_motion_spec:
  assumes "3 \<le> length h"
  shows "total_motion_loop rs cfg h 1 0 / (real (length h) - 1) = spec_average_motion rs cfg h"
  unfolding total_motion_loop_sum spec_average_motion_def real_length_pred [OF assms]
  by simp


section \<open>The cases of detect\_motion\<close>

lemma detect_motion_None:
  "detect_motion rs cfg self None
     = (Inr False, self\<lparr>face_presence_count := 0, motion_history := []\<rparr>)"
  by (simp add: detect_motion_def)

lemma detect_motion_empty:
  "np_size p = 0 \<Longrightarrow> detect_motion rs cfg self (Some p)
     = (Inr False, self\<lparr>face_presence_count := face_presence_count self + 1\<rparr>)"
  by (simp add: detect_motion_def)

lemma detect_motion_seed:
  "np_size p \<noteq> 0 \<Longrightarrow> motion_history self = [] \<Longrightarrow> detect_motion rs cfg self (Some p)
     = (Inr False, self\<lparr>face_presence_count := face_presence_count self + 1,
                         motion_history := [p]\<rparr>)"
  by (simp add: detect_motion_def cvtColor_def)

lemma detect_motion_step_raw:
  assumes "np_size p \<noteq> 0" "motion_history self \<noteq> []"
  shows "detect_motion rs cfg self (Some p) =
     (let h = window_after (motion_history_size cfg) (motion_history self) p;
          v = (if 3 \<le> length h
               then real_of_int (liveness_threshold cfg)
                      < total_motion_loop rs cfg h 1 0 / (real (length h) - 1)
               else is_alive self)
      in (Inr v, self\<lparr>face_presence_count := face_presence_count self + 1,
                      motion_history := h, is_alive := v\<rparr>))"
  using assms
  by (simp add: detect_motion_def cvtColor_def Let_def window_after_def
        calculate_total_motion_def)

lemma detect_motion_step:
  assumes "np_size p \<noteq> 0" "motion_history self \<noteq> []"
  shows "detect_motion rs cfg self (Some p) =
     (let h = window_after (motion_history_size cfg) (motion_history self) p;
          v = (if 3 \<le> length h
               then real_of_int (liveness_threshold cfg) < spec_average_motion rs cfg h
               else is_alive self)
      in (Inr v, self\<lparr>face_presence_count := face_presence_count self + 1,
                      motion_history := h, is_alive := v\<rparr>))"
proof (cases "3 \<le> length (window_after (motion_history_size cfg) (motion_history self) p)")
  case True
  show ?thesis
    unfolding detect_motion_step_raw [OF assms] Let_def
    by (simp only: True if_True average_motion_spec [OF True])
next
  case False
  show ?thesis
    unfolding detect_motion_step_raw [OF assms] Let_def
    by (simp only: False if_False)
qed






section \<open>The window\<close>








section \<open>C9: the window never outgrows the history size\<close>




section \<open>The verdict\<close>

lemma detector_alive_reached:
  "detect_motion_seq resize_id LivenessConfig_default LivenessDetector_init
     [Some patch_dark, Some patch_bright, Some patch_dark]
     = ([Inr False, Inr False, Inr True], detector_alive)"
  by (simp add: detect_motion_def Let_def cvtColor_def np_size_def shape_def patch_dark_def
        patch_bright_def LivenessConfig_default_def LivenessDetector_init_def
        calculate_total_motion_def total_motion_loop.simps cv_absdiff_def absdiff_def
        np_sum_gt_def resize_id_def detector_alive_def)

lemma pair_motion_same: "0 \<le> thr \<Longrightarrow> pair_motion rs thr p p = 0"
  by (simp add: pair_motion_def count_exceeding_def)

lemma spec_average_motion_identical:
  assumes "0 \<le> motion_pixel_threshold cfg" and "\<forall>q\<in>set w. q = p"
  shows "spec_average_motion rs cfg w = 0"
proof -
  have "pair_motion rs (motion_pixel_threshold cfg) (w ! (i - 1)) (w ! i) = 0"
    if "i \<in> {1..<length w}" for i
  proof -
    have "w ! (i - 1) = p" "w ! i = p"
      using that assms(2) by auto
    then show ?thesis
      using assms(1) by (simp add: pair_motion_same)
  qed
  then show ?thesis
    by (simp add: spec_average_motion_def)
qed

lemma verdict_step:
  assumes "np_size p \<noteq> 0"
      and "3 \<le> length (motion_history (snd (detect_motion rs cfg self (Some p))))"
  shows "fst (detect_motion rs cfg self (Some p))
           = Inr (real_of_int (liveness_threshold cfg)
                    < spec_average_motion rs cfg
                        (motion_history (snd (detect_motion rs cfg self (Some p)))))
       \<and> is_alive (snd (detect_motion rs cfg self (Some p)))
           = (real_of_int (liveness_threshold cfg)
                < spec_average_motion rs cfg
                    (motion_history (snd (detect_motion rs cfg self (Some p)))))"
proof (cases "motion_history self = []")
  case True
  then show ?thesis
    using assms by (simp add: detect_motion_seed)
next
  case False
  then show ?thesis
    using assms by (simp add: detect_motion_step Let_def)
qed

lemma verdict_invariant_step:
  assumes "3 \<le> length (motion_history self) \<longrightarrow>
             is_alive self = (real_of_int (liveness_threshold cfg)
                               < spec_average_motion rs cfg (motion_history self))"
  shows "3 \<le> length (motion_history (snd (detect_motion rs cfg self x))) \<longrightarrow>
           is_alive (snd (detect_motion rs cfg self x))
             = (real_of_int (liveness_threshold cfg)
                  < spec_average_motion rs cfg (motion_history (snd (detect_motion rs cfg self x))))"
proof (cases x)
  case None
  then show ?thesis by (simp add: detect_motion_None)
next
  case (Some p)
  show ?thesis
  proof (cases "np_size p = 0")
    case True
    then show ?thesis using Some assms by (simp add: detect_motion_empty)
  next
    case False
    then show ?thesis using Some verdict_step [of p rs cfg self] by simp
  qed
qed

lemma verdict_invariant_seq:
  assumes "3 \<le> length (motion_history self) \<longrightarrow>
             is_alive self = (real_of_int (liveness_threshold cfg)
                               < spec_average_motion rs cfg (motion_history self))"
  shows "3 \<le> length (motion_history (snd (detect_motion_seq rs cfg self xs))) \<longrightarrow>
           is_alive (snd (detect_motion_seq rs cfg self xs))
             = (real_of_int (liveness_threshold cfg)
                  < spec_average_motion rs cfg
                      (motion_history (snd (detect_motion_seq rs cfg self xs))))"
  using assms
proof (induction xs arbitrary: self)
  case Nil
  then show ?case by simp
next
  case (Cons x xs)
  from Cons.IH [OF verdict_invariant_step [OF Cons.prems, of x]] show ?case
    by (simp add: case_prod_unfold Let_def)
qed

lemma verdict_invariant_init:
  "3 \<le> length (motion_history (snd (detect_motion_seq rs cfg LivenessDetector_init xs))) \<longrightarrow>
     is_alive (snd (detect_motion_seq rs cfg LivenessDetector_init xs))
       = (real_of_int (liveness_threshold cfg)
            < spec_average_motion rs cfg
                (motion_history (snd (detect_motion_seq rs cfg LivenessDetector_init xs))))"
  by (rule verdict_invariant_seq) (simp add: LivenessDetector_init_def)

section \<open>C5: the verdict is the average motion against the threshold\<close>

text \<open>
  Claim C5, as amended. In every state the detector reaches from its initial state, a
  window of at least 3 patches goes with the stored verdict
  \<open>is_alive = (spec_average_motion > liveness_threshold)\<close>, where the average motion is
  the sum, over the adjacent pairs of the window, of the number of pixels whose absolute
  difference exceeds \<open>motion_pixel_threshold\<close>, divided by the length of the window
  less one. From any state, a call with a non-empty patch that leaves at least 3 patches
  in the window returns that verdict and stores it; a call with an empty patch returns
  not-alive, whatever the window holds. When \<open>motion_pixel_threshold\<close> is not negative, a
  window of identical patches has average motion 0; when \<open>liveness_threshold\<close> is not
  negative either (the defaults are 10 and 15), the call that leaves at least 3 identical
  patches returns not-alive.
\<close>

theorem C5_liveness_verdict:
  "(3 \<le> length (motion_history (snd (detect_motion_seq rs cfg LivenessDetector_init xs))) \<longrightarrow>
      is_alive (snd (detect_motion_seq rs cfg LivenessDetector_init xs))
        = (real_of_int (liveness_threshold cfg)
             < spec_average_motion rs cfg
                 (motion_history (snd (detect_motion_seq rs cfg LivenessDetector_init xs)))))
   \<and> (np_size p \<noteq> 0 \<longrightarrow>
        3 \<le> length (motion_history (snd (detect_motion rs cfg self (Some p)))) \<longrightarrow>
          fst (detect_motion rs cfg self (Some p))
            = Inr (real_of_int (liveness_threshold cfg)
                     < spec_average_motion rs cfg
                         (motion_history (snd (detect_motion rs cfg self (Some p)))))
          \<and> is_alive (snd (detect_motion rs cfg self (Some p)))
            = (real_of_int (liveness_threshold cfg)
                 < spec_average_motion rs cfg
                     (motion_history (snd (detect_motion rs cfg self (Some p))))))
   \<and> (np_size p = 0 \<longrightarrow> fst (detect_motion rs cfg self (Some p)) = Inr False)
   \<and> (0 \<le> motion_pixel_threshold cfg \<longrightarrow> (\<forall>q\<in>set w. q = p) \<longrightarrow>
        spec_average_motion rs cfg w = 0)
   \<and> (0 \<le> motion_pixel_threshold cfg \<longrightarrow> 0 \<le> liveness_threshold cfg \<longrightarrow> np_size p \<noteq> 0 \<longrightarrow>
        3 \<le> length (motion_history (snd (detect_motion rs cfg self (Some p)))) \<longrightarrow>
        (\<forall>q\<in>set (motion_history (snd (detect_motion rs cfg self (Some p)))). q = p) \<longrightarrow>
          fst (detect_motion rs cfg self (Some p)) = Inr False
          \<and> \<not> is_alive (snd (detect_motion rs cfg self (Some p))))"
proof (intro conjI impI)
  show "is_alive (snd (detect_motion_seq rs cfg LivenessDetector_init xs))
        = (real_of_int (liveness_threshold cfg)
             < spec_average_motion rs cfg
                 (motion_history (snd (detect_motion_seq rs cfg LivenessDetector_init xs))))"
    if "3 \<le> length (motion_history (snd (detect_motion_seq rs cfg LivenessDetector_init xs)))"
    using that verdict_invariant_init by blast
next
  assume a: "np_size p \<noteq> 0"
     "3 \<le> length (motion_history (snd (detect_motion rs cfg self (Some p))))"
  from verdict_step [OF a]
  show "fst (detect_motion rs cfg self (Some p))
            = Inr (real_of_int (liveness_threshold cfg)
                     < spec_average_motion rs cfg
                         (motion_history (snd (detect_motion rs cfg self (Some p)))))"
    and "is_alive (snd (detect_motion rs cfg self (Some p)))
            = (real_of_int (liveness_threshold cfg)
                 < spec_average_motion rs cfg
                     (motion_history (snd (detect_motion rs cfg self (Some p)))))"
    by simp_all
next
  show "fst (detect_motion rs cfg self (Some p)) = Inr False" if "np_size p = 0"
    using that by (simp add: detect_motion_empty)
next
  show "spec_average_motion rs cfg w = 0"
    if "0 \<le> motion_pixel_threshold cfg" "\<forall>q\<in>set w. q = p"
    using that by (rule spec_average_motion_identical)
next
  assume a: "0 \<le> motion_pixel_threshold cfg" "0 \<le> liveness_threshold cfg" "np_size p \<noteq> 0"
     "3 \<le> length (motion_history (snd (detect_motion rs cfg self (Some p))))"
     "\<forall>q\<in>set (motion_history (snd (detect_motion rs cfg self (Some p)))). q = p"
  have z: "spec_average_motion rs cfg (motion_history (snd (detect_motion rs cfg self (Some p)))) = 0"
    using a(1) a(5) by (rule spec_average_motion_identical)
  from verdict_step [OF a(3) a(4)] z a(2)
  show "fst (detect_motion rs cfg self (Some p)) = Inr False"
    and "\<not> is_alive (snd (detect_motion rs cfg self (Some p)))"
    by simp_all
qed

lemma detect_motion_still:
  "detect_motion resize_id LivenessConfig_default detector_still (Some patch_dark)
     = (Inr False, \<lparr>motion_history = [patch_dark, patch_dark, patch_dark],
                    face_presence_count = 3, is_alive = False\<rparr>)"
  by (simp add: detect_motion_def Let_def cvtColor_def np_size_def shape_def patch_dark_def
        LivenessConfig_default_def detector_still_def
        calculate_total_motion_def total_motion_loop.simps cv_absdiff_def absdiff_def
        np_sum_gt_def resize_id_def)

text \<open>
  The default configuration: three dark patches have average motion 0 and give not-alive;
  an empty patch gives not-alive; \<open>detector_alive\<close>, reached from the initial state,
  holds the verdict of the formula.
\<close>

theorem C5_liveness_verdict_witness:
  "spec_average_motion resize_id LivenessConfig_default [patch_dark, patch_dark, patch_dark] = 0
   \<and> fst (detect_motion resize_id LivenessConfig_default detector_still (Some patch_dark))
       = Inr False
   \<and> fst (detect_motion resize_id LivenessConfig_default detector_alive (Some [])) = Inr False
   \<and> is_alive detector_alive
       = (15 < spec_average_motion resize_id LivenessConfig_default
                 [patch_dark, patch_bright, patch_dark])"
proof -
  have a: "0 \<le> motion_pixel_threshold LivenessConfig_default"
          "0 \<le> liveness_threshold LivenessConfig_default"
          "liveness_threshold LivenessConfig_default = 15"
    by (simp_all add: LivenessConfig_default_def)
  have b: "np_size patch_dark \<noteq> 0" "np_size [] = 0"
    by (simp_all add: np_size_def patch_dark_def)
  have c: "snd (detect_motion_seq resize_id LivenessConfig_default LivenessDetector_init
             [Some patch_dark, Some patch_bright, Some patch_dark]) = detector_alive"
    by (simp only: detector_alive_reached snd_conv)
  have d: "motion_history detector_alive = [patch_dark, patch_bright, patch_dark]"
    by (simp add: detector_alive_def)
  show ?thesis
    using C5_liveness_verdict [of resize_id LivenessConfig_default
            "[Some patch_dark, Some patch_bright, Some patch_dark]" patch_dark detector_still
            "[patch_dark, patch_dark, patch_dark]"]
          C5_liveness_verdict [of resize_id LivenessConfig_default "[]" "[]" detector_alive "[]"]
    by (simp add: a b c d detect_motion_still del: detect_motion_seq.simps)
qed

text \<open>
  Claim C5 as stated fails twice. With the default configuration, \<open>detector_alive\<close>
  holds three patches of average motion 16, above the threshold 15, and a call with an
  empty patch returns not-alive. With \<open>liveness_threshold = -1\<close>, which
  \<^verbatim>\<open>LivenessConfig\<close> accepts, three identical patches give alive.
\<close>

theorem C5_counterexample:
  "3 \<le> length (motion_history (snd (detect_motion resize_id LivenessConfig_default
           detector_alive (Some []))))
   \<and> fst (detect_motion resize_id LivenessConfig_default detector_alive (Some []))
       \<noteq> Inr (real_of_int (liveness_threshold LivenessConfig_default)
                < spec_average_motion resize_id LivenessConfig_default
                    (motion_history (snd (detect_motion resize_id LivenessConfig_default
                       detector_alive (Some [])))))
   \<and> fst (detect_motion_seq resize_id (LivenessConfig_default\<lparr>liveness_threshold := - 1\<rparr>)
            LivenessDetector_init [Some patch_dark, Some patch_dark, Some patch_dark])
       = [Inr False, Inr False, Inr True]"
proof -
  have e: "detect_motion resize_id LivenessConfig_default detector_alive (Some [])
             = (Inr False, detector_alive\<lparr>face_presence_count := 4\<rparr>)"
    by (simp add: detect_motion_empty np_size_def detector_alive_def)
  have w: "motion_history (detector_alive\<lparr>face_presence_count := 4\<rparr>)
             = [patch_dark, patch_bright, patch_dark]"
    by (simp add: detector_alive_def)
  have "spec_average_motion resize_id LivenessConfig_default
             [patch_dark, patch_bright, patch_dark]
           = total_motion_loop resize_id LivenessConfig_default
               [patch_dark, patch_bright, patch_dark] 1 0
               / (real (length [patch_dark, patch_bright, patch_dark]) - 1)"
    by (rule average_motion_spec [symmetric]) simp
  also have "\<dots> = 16"
    by (simp add: total_motion_loop.simps Let_def shape_def patch_dark_def patch_bright_def
          cv_absdiff_def absdiff_def np_sum_gt_def LivenessConfig_default_def)
  finally have s: "spec_average_motion resize_id LivenessConfig_default
             [patch_dark, patch_bright, patch_dark] = 16" .
  have t: "fst (detect_motion_seq resize_id (LivenessConfig_default\<lparr>liveness_threshold := - 1\<rparr>)
            LivenessDetector_init [Some patch_dark, Some patch_dark, Some patch_dark])
       = [Inr False, Inr False, Inr True]"
    by (simp add: detect_motion_def Let_def cvtColor_def np_size_def shape_def patch_dark_def
        LivenessConfig_default_def LivenessDetector_init_def
        calculate_total_motion_def total_motion_loop.simps cv_absdiff_def absdiff_def
        np_sum_gt_def resize_id_def)
  have l: "liveness_threshold LivenessConfig_default = 15"
    by (simp add: LivenessConfig_default_def)
  show ?thesis
    by (simp add: e w s t l del: detect_motion_seq.simps)
qed

section \<open>C7: an empty face region\<close>

text \<open>
  Claim C7, as amended. In \<^verbatim>\<open>recognize_v2.py\<close> a call of \<^verbatim>\<open>detect_motion\<close> with an empty
  face region raises nothing; it leaves the window and the stored verdict as they were,
  adds one to \<open>face_presence_count\<close>, and returns not-alive, whatever the stored verdict
  is.
\<close>

theorem C7_empty_patch:
  assumes "np_size p = 0"
  shows "detect_motion rs cfg self (Some p)
           = (Inr False, self\<lparr>face_presence_count := face_presence_count self + 1\<rparr>)
       \<and> motion_history (snd (detect_motion rs cfg self (Some p))) = motion_history self
       \<and> is_alive (snd (detect_motion rs cfg self (Some p))) = is_alive self"
  using assms by (simp add: detect_motion_empty)

text \<open>The empty region on \<open>detector_alive\<close>.\<close>

theorem C7_empty_patch_witness:
  "detect_motion resize_id LivenessConfig_default detector_alive (Some [])
     = (Inr False, detector_alive\<lparr>face_presence_count := 4\<rparr>)"
proof -
  have "np_size [] = 0" by (simp add: np_size_def)
  from C7_empty_patch [OF this, of resize_id LivenessConfig_default detector_alive]
  show ?thesis by (simp add: detector_alive_def)
qed

text \<open>
  Claim C7 as stated fails on \<open>detector_alive\<close>: the call returns not-alive where the
  verdict was alive, and the detector is not the one before the call (its
  \<open>face_presence_count\<close> went from 3 to 4).
\<close>

theorem C7_counterexample:
  "fst (detect_motion resize_id LivenessConfig_default detector_alive (Some []))
     \<noteq> Inr (is_alive detector_alive)
   \<and> snd (detect_motion resize_id LivenessConfig_default detector_alive (Some []))
     \<noteq> detector_alive"
  by (simp add: detect_motion_empty np_size_def detector_alive_def)

text \<open>
  \<^verbatim>\<open>reset\<close> clears the stored verdict; a call without a face clears the window and
  the counter as \<^verbatim>\<open>reset\<close> does, but keeps the stored verdict.
\<close>

lemma reset_clears_verdict:
  "reset self = \<lparr>motion_history = [], face_presence_count = 0, is_alive = False\<rparr>"
  by (simp add: reset_def)

lemma detect_motion_None_keeps_verdict:
  "snd (detect_motion rs cfg self None)
     = \<lparr>motion_history = [], face_presence_count = 0, is_alive = is_alive self\<rparr>"
  by (simp add: detect_motion_None)

text \<open>
  After a call without a face, the second patch is answered with the verdict stored
  before the face was lost, whatever the configuration and the patches.
\<close>

lemma stale_verdict:
  assumes "np_size p \<noteq> 0" "np_size q \<noteq> 0"
  shows "fst (detect_motion_seq rs cfg self [None, Some p, Some q])
           = [Inr False, Inr False, Inr (is_alive self)]"
proof -
  have "length (window_after (motion_history_size cfg) [p] q) < 3"
    by (simp add: window_after_def)
  then show ?thesis
    using assms
    by (simp add: detect_motion_None detect_motion_seed detect_motion_step Let_def)
qed

section \<open>C6: losing the face does not reset the stored verdict\<close>

text \<open>
  Claim C6 at a concrete input. On \<open>detector_alive\<close> (reached from the initial state by
  \<open>detector_alive_reached\<close>), a call without a face returns not-alive and empties the
  window, but \<open>is_alive\<close> stays set, as \<^verbatim>\<open>detect_motion\<close> never clears it (only
  \<^verbatim>\<open>reset\<close> does). The next patch seeds the window; the one after it finds 2 patches,
  computes nothing and returns the stale verdict: alive, on two identical patches.
\<close>

theorem C6_stale_verdict_after_None:
  "detect_motion_seq resize_id LivenessConfig_default detector_alive
     [None, Some patch_dark, Some patch_dark]
     = ([Inr False, Inr False, Inr True],
        \<lparr>motion_history = [patch_dark, patch_dark], face_presence_count = 2, is_alive = True\<rparr>)"
  by (simp add: detect_motion_def Let_def cvtColor_def np_size_def shape_def patch_dark_def
        patch_bright_def LivenessConfig_default_def
        calculate_total_motion_def cv_absdiff_def absdiff_def
        np_sum_gt_def resize_id_def detector_alive_def)

section \<open>The matcher\<close>






lemma is_first_min_unique: "is_first_min ds i \<Longrightarrow> is_first_min ds j \<Longrightarrow> i = j"
  unfolding is_first_min_def
  by (metis less_irrefl nat_neq_iff)


lemma load_known_faces_lengths:
  "length (known_names self) = length (known_encodings self) \<Longrightarrow>
   length (known_names (load_known_faces self files))
     = length (known_encodings (load_known_faces self files))"
  by (induction self files rule: load_known_faces.induct) (auto split: sum.splits)

section \<open>C4: the postcondition of recognize\_face\<close>



section \<open>The ledger\<close>

lemma record_index_Nil_iff:
  "record_index df name date = []
     \<longleftrightarrow> (\<forall>r\<in>set df. \<not> (Name r = Str name \<and> Date r = Str date))"
proof
  assume "record_index df name date = []"
  then show "\<forall>r\<in>set df. \<not> (Name r = Str name \<and> Date r = Str date)"
    by (auto simp: record_index_def filter_empty_conv in_set_conv_nth)
next
  assume a: "\<forall>r\<in>set df. \<not> (Name r = Str name \<and> Date r = Str date)"
  have "\<not> (Name (df ! i) = Str name \<and> Date (df ! i) = Str date)" if "i < length df" for i
    using a that nth_mem by blast
  then show "record_index df name date = []"
    by (simp add: record_index_def filter_empty_conv)
qed

lemma hd_filter_upt:
  assumes "i < n" "P i" "\<forall>j<i. \<not> P j"
  shows "filter P [0..<n] = i # filter P [Suc i..<n]"
proof -
  have "[0..<n] = [0..<i] @ i # [Suc i..<n]"
    using assms(1) by (metis le_add1 less_imp_add_positive less_or_eq_imp_le upt_add_eq_append upt_conv_Cons plus_nat.add_0)
  moreover have "filter P [0..<i] = []"
    using assms(3) by (simp add: filter_empty_conv)
  ultimately show ?thesis
    using assms(2) by simp
qed

lemma record_index_first:
  assumes "i < length df" "Name (df ! i) = Str name \<and> Date (df ! i) = Str date"
      and "\<forall>j<i. \<not> (Name (df ! j) = Str name \<and> Date (df ! j) = Str date)"
  shows "record_index df name date \<noteq> [] \<and> hd (record_index df name date) = i"
  unfolding record_index_def
  using hd_filter_upt [of i "length df" "\<lambda>i. Name (df ! i) = Str name \<and> Date (df ! i) = Str date"]
    assms by simp

lemma render_Str_row:
  "map_Row render_cell
     \<lparr>Name = Str a, Date = Str b, Punch_In = Str c, Punch_Out = Str d,
      Confidence = Str e, Liveness_Check = Str f\<rparr>
   = \<lparr>Name = a, Date = b, Punch_In = c, Punch_Out = d, Confidence = e, Liveness_Check = f\<rparr>"
  by (simp add: map_Row_def render_cell_def)

lemma mark_attendance_no_record:
  assumes "contents fs = Some rows"
      and "record_index (map (map_Row parse_cell) rows) name (dt_date (now1 clk)) = []"
  shows "mark_attendance cfg self fs clk name True =
     (if (case last_marked self (name @ ''_'' @ dt_date (now1 clk)) of
            None \<Rightarrow> False
          | Some t \<Rightarrow> total_seconds (now2 clk) t
              < real_of_int (duplicate_detection_window (recognition cfg)))
      then (DUPLICATE, self, fs)
      else if writable fs then
        (PUNCH_IN,
         self\<lparr>last_marked := (last_marked self)(name @ ''_'' @ dt_date (now1 clk) \<mapsto> now3 clk)\<rparr>,
         fs\<lparr>contents := Some (map (map_Row render_cell) (map (map_Row parse_cell) rows)
            @ [\<lparr>Name = name, Date = dt_date (now1 clk), Punch_In = dt_time (now1 clk),
                 Punch_Out = '''', Confidence = ''HIGH'', Liveness_Check = ''VERIFIED''\<rparr>])\<rparr>)
      else
        (ERROR,
         self\<lparr>last_marked := (last_marked self)(name @ ''_'' @ dt_date (now1 clk) \<mapsto> now3 clk)\<rparr>,
         fs))"
  using assms
  by (simp add: mark_attendance_def pd_read_csv_def pd_to_csv_def Let_def render_Str_row)

lemma mark_attendance_record:
  assumes "contents fs = Some rows"
      and "record_index (map (map_Row parse_cell) rows) name (dt_date (now1 clk)) \<noteq> []"
      and "hd (record_index (map (map_Row parse_cell) rows) name (dt_date (now1 clk))) = i"
  shows "mark_attendance cfg self fs clk name True =
     (if punch_out_empty (Punch_Out (map (map_Row parse_cell) rows ! i)) then
        if writable fs then
          (PUNCH_OUT,
           self\<lparr>last_marked := (last_marked self)(name @ ''_'' @ dt_date (now1 clk) := None)\<rparr>,
           fs\<lparr>contents := Some (map (map_Row render_cell)
              ((map (map_Row parse_cell) rows)[i := (map (map_Row parse_cell) rows ! i)
                 \<lparr>Punch_Out := Str (dt_time (now1 clk)),
                  Liveness_Check := Str ''VERIFIED''\<rparr>]))\<rparr>)
        else
          (ERROR,
           self\<lparr>last_marked := (last_marked self)(name @ ''_'' @ dt_date (now1 clk) := None)\<rparr>,
           fs)
      else (ALREADY_MARKED, self, fs))"
  using assms
  by (simp add: mark_attendance_def pd_read_csv_def pd_to_csv_def Let_def punch_out_empty_def)

lemma mark_attendance_unreadable:
  "contents fs = None \<Longrightarrow> mark_attendance cfg self fs clk name True = (ERROR, self, fs)"
  by (simp add: mark_attendance_def pd_read_csv_def)


text \<open>
  Writing the table and reading it again gives the same table. A call that returns
  ERROR leaves the file as it was. A call that follows a punch-in of the same name on the
  same day returns PUNCH\_OUT, whatever the time between the two: the debounce map is
  not consulted (the name and the date must not be texts that pandas reads as missing).
\<close>

lemma parse_render_parse: "parse_cell (render_cell (parse_cell s)) = parse_cell s"
  by (simp add: parse_cell_def render_cell_def na_values_def)

lemma reread_row:
  "map_Row parse_cell (map_Row render_cell (map_Row parse_cell x)) = map_Row parse_cell x"
  by (simp add: map_Row_def parse_render_parse)

lemma reread_rows:
  "map (map_Row parse_cell) (map (map_Row render_cell) (map (map_Row parse_cell) rows))
     = map (map_Row parse_cell) rows"
  by (simp add: reread_row)

lemma mark_attendance_error_keeps_file:
  "fst (mark_attendance cfg self fs clk name alive) = ERROR \<Longrightarrow>
   snd (snd (mark_attendance cfg self fs clk name alive)) = fs"
  by (auto simp: mark_attendance_def pd_read_csv_def pd_to_csv_def Let_def
        split: if_splits option.splits)

lemma punch_in_then_punch_out:
  assumes first: "mark_attendance cfg self fs clk name True = (PUNCH_IN, self', fs')"
      and names: "name \<notin> set na_values" "dt_date (now1 clk) \<notin> set na_values"
      and day: "dt_date (now1 clk') = dt_date (now1 clk)"
  shows "fst (mark_attendance cfg' self' fs' clk' name True) = PUNCH_OUT"
proof -
  obtain rows where rows: "contents fs = Some rows"
    using first by (cases "contents fs") (simp_all add: mark_attendance_def pd_read_csv_def)
  define df where "df = map (map_Row parse_cell) rows"
  define new where "new = \<lparr>Name = name, Date = dt_date (now1 clk), Punch_In = dt_time (now1 clk),
       Punch_Out = '''', Confidence = ''HIGH'', Liveness_Check = ''VERIFIED''\<rparr>"
  have idx: "record_index df name (dt_date (now1 clk)) = []"
    using first rows
    by (auto simp: mark_attendance_def pd_read_csv_def pd_to_csv_def Let_def df_def
          split: if_splits)
  have fs': "fs' = fs\<lparr>contents := Some (map (map_Row render_cell) df @ [new])\<rparr>"
     and wr: "writable fs"
    using first idx rows unfolding df_def new_def
    by (auto simp: mark_attendance_no_record split: if_splits)
  define df' where "df' = map (map_Row parse_cell) (map (map_Row render_cell) df @ [new])"
  have df': "df' = df @ [map_Row parse_cell new]"
    by (simp add: df'_def df_def reread_row)
  have new: "Name (map_Row parse_cell new) = Str name"
       "Date (map_Row parse_cell new) = Str (dt_date (now1 clk))"
       "Punch_Out (map_Row parse_cell new) = NaN"
    using names by (simp_all add: new_def map_Row_def parse_cell_def na_values_def)
  have none: "\<forall>j<length df. \<not> (Name (df ! j) = Str name \<and> Date (df ! j) = Str (dt_date (now1 clk)))"
    using idx by (simp add: record_index_Nil_iff)
  have first': "record_index df' name (dt_date (now1 clk')) \<noteq> []
       \<and> hd (record_index df' name (dt_date (now1 clk'))) = length df"
  proof (rule record_index_first)
    show "length df < length df'" by (simp add: df')
    show "Name (df' ! length df) = Str name \<and> Date (df' ! length df) = Str (dt_date (now1 clk'))"
      by (simp add: df' new day)
    show "\<forall>j<length df. \<not> (Name (df' ! j) = Str name \<and> Date (df' ! j) = Str (dt_date (now1 clk')))"
      using none by (simp add: df' nth_append day)
  qed
  have c': "contents fs' = Some (map (map_Row render_cell) df @ [new])" "writable fs'"
    using wr by (simp_all add: fs')
  have e: "punch_out_empty (Punch_Out (df' ! length df))"
    by (simp add: df' new punch_out_empty_def py_str_def py_strip_def py_isspace_def)
  show ?thesis
    using mark_attendance_record [OF c'(1), of name clk' "length df" cfg' self'] first' e c'(2)
    by (simp add: df'_def)
qed

section \<open>Calls on the example day\<close>

lemma mark_fresh:
  "mark_attendance DEFAULT_CONFIG system_enrolled file_empty (clock_at morning) ''alice'' True
     = (PUNCH_IN, system_in, file_in)"
  by (simp add: mark_attendance_def pd_read_csv_def pd_to_csv_def Let_def render_Str_row
        record_index_def file_empty_def file_in_def system_in_def system_enrolled_def
        clock_at_def morning_def row_in_def)


lemma mark_evening:
  "mark_attendance DEFAULT_CONFIG system_in file_in (clock_at evening) ''alice'' True
     = (PUNCH_OUT, system_enrolled, file_out)"
  by (simp add: mark_attendance_def pd_read_csv_def pd_to_csv_def Let_def
        record_index_def file_in_def file_out_def system_in_def system_enrolled_def
        clock_at_def evening_def row_in_def row_out_def map_Row_def parse_cell_def
        render_cell_def na_values_def py_str_def py_strip_def py_isspace_def)

lemma mark_again:
  "mark_attendance DEFAULT_CONFIG system_enrolled file_out (clock_at evening) ''alice'' True
     = (ALREADY_MARKED, system_enrolled, file_out)"
  by (simp add: mark_attendance_def pd_read_csv_def pd_to_csv_def Let_def
        record_index_def file_out_def system_enrolled_def
        clock_at_def evening_def row_out_def map_Row_def parse_cell_def
        render_cell_def na_values_def py_str_def py_strip_def py_isspace_def)

section \<open>C2: a failed liveness check rejects the call\<close>

text \<open>
  Claim C2. Whatever the system, the attendance file (readable or not), the clock and the
  name, a call of \<^verbatim>\<open>mark_attendance\<close> with \<^verbatim>\<open>is_alive\<close> false returns
  REJECTED\_SPOOF and leaves the system, its debounce map \<open>last_marked\<close> included, and
  the file as they were, in both versions: the check comes first, before the file is
  read.
\<close>

theorem C2_spoof_rejected:
  "mark_attendance cfg self fs clk name False = (REJECTED_SPOOF, self, fs)
   \<and> mark_attendance_v1 self fs clk name False = (Inr REJECTED_SPOOF, self, fs)"
  by (simp add: mark_attendance_def mark_attendance_v1_def)

text \<open>An unreadable file with a fresh debounce entry, and an open record.\<close>

theorem C2_spoof_rejected_witness:
  "mark_attendance DEFAULT_CONFIG system_in \<lparr>contents = None, writable = False\<rparr>
      (clock_at morning_1s) ''alice'' False
     = (REJECTED_SPOOF, system_in, \<lparr>contents = None, writable = False\<rparr>)
   \<and> mark_attendance DEFAULT_CONFIG system_in file_in (clock_at evening) ''alice'' False
     = (REJECTED_SPOOF, system_in, file_in)"
  using C2_spoof_rejected [of DEFAULT_CONFIG system_in "\<lparr>contents = None, writable = False\<rparr>"
          "clock_at morning_1s" "''alice''"]
        C2_spoof_rejected [of DEFAULT_CONFIG system_in file_in "clock_at evening" "''alice''"]
  by simp

section \<open>C1: the state machine of a name and a date\<close>



section \<open>C3: the second call within the debounce window\<close>

text \<open>
  Claim C3 at a concrete input. On an empty file, alice's first call at 09:00:00 returns
  PUNCH\_IN and writes her row. Her second call, one second later and so within the
  window of 5 seconds, finds that row: the debounce map is consulted only when no row
  exists, so the call does not return DUPLICATE but PUNCH\_OUT, and closes the record at
  09:00:01.
\<close>

theorem C3_second_mark_punches_out:
  "mark_attendance DEFAULT_CONFIG system_enrolled file_empty (clock_at morning) ''alice'' True
     = (PUNCH_IN, system_in, file_in)
   \<and> mark_attendance DEFAULT_CONFIG system_in file_in (clock_at morning_1s) ''alice'' True
     = (PUNCH_OUT, system_enrolled,
        \<lparr>contents = Some [row_in\<lparr>Punch_Out := ''09:00:01''\<rparr>], writable = True\<rparr>)"
proof -
  have "mark_attendance DEFAULT_CONFIG system_in file_in (clock_at morning_1s) ''alice'' True
     = (PUNCH_OUT, system_enrolled,
        \<lparr>contents = Some [row_in\<lparr>Punch_Out := ''09:00:01''\<rparr>], writable = True\<rparr>)"
    by (simp add: mark_attendance_def pd_read_csv_def pd_to_csv_def Let_def
        record_index_def file_in_def system_in_def system_enrolled_def
        clock_at_def morning_1s_def row_in_def map_Row_def parse_cell_def render_cell_def
        na_values_def py_str_def py_strip_def py_isspace_def)
  then show ?thesis using mark_fresh by simp
qed

section \<open>C8: a write that fails\<close>

text \<open>
  Claim C8 at a concrete input. On an empty file that cannot be written, alice's call
  returns ERROR and the file is as before, but the debounce entry of her key was stored
  before the write was tried and stays. A second call one second later, on the file now
  writable, returns DUPLICATE: no record of her punch-in exists.
\<close>

theorem C8_failed_write_keeps_debounce_entry:
  "mark_attendance DEFAULT_CONFIG system_enrolled file_readonly (clock_at morning) ''alice'' True
     = (ERROR, system_in, file_readonly)
   \<and> last_marked system_enrolled ''alice_2024-01-01'' = None
   \<and> last_marked system_in ''alice_2024-01-01'' = Some morning
   \<and> mark_attendance DEFAULT_CONFIG system_in file_empty (clock_at morning_1s) ''alice'' True
     = (DUPLICATE, system_in, file_empty)"
  by (simp add: mark_attendance_def pd_read_csv_def pd_to_csv_def Let_def
        record_index_def file_readonly_def file_empty_def system_in_def system_enrolled_def
        clock_at_def morning_def morning_1s_def total_seconds_def
        DEFAULT_CONFIG_def RecognitionConfig_default_def)

section \<open>C10: the confidence column is a constant\<close>



end
